theory Spec2Isabelle
  imports Complex_Main "HOL-Library.Sublist"
begin

section \<open>JavaScript values and strings\<close>

text \<open>
  A JavaScript string is modelled as an Isabelle \<open>string\<close>: the list of its code units,
  restricted to the range 0..255. A property that may be \<open>undefined\<close> is a
  \<open>string option\<close>. In a condition, \<open>undefined\<close> and the empty string are falsy and
  every other string is truthy.
\<close>

definition truthy :: "string option \<Rightarrow> bool" where
  "truthy v = (case v of None \<Rightarrow> False | Some s \<Rightarrow> s \<noteq> [])"

text \<open>\<^verbatim>\<open>v || d\<close> on an optional string \<open>v\<close> and a string \<open>d\<close>.\<close>

definition orElse :: "string option \<Rightarrow> string \<Rightarrow> string" where
  "orElse v d = (case v of None \<Rightarrow> d | Some s \<Rightarrow> if s = [] then d else s)"

text \<open>The class \<^verbatim>\<open>\s\<close> of a regular expression and of \<^verbatim>\<open>trim\<close>, on code units below 256:
  tab, line feed, vertical tab, form feed, carriage return, space and no-break space.\<close>

definition isSpace :: "char \<Rightarrow> bool" where
  "isSpace c = (c \<in> set [CHR 0x09, CHR 0x0A, CHR 0x0B, CHR 0x0C, CHR 0x0D, CHR 0x20, CHR 0xA0])"

text \<open>The class \<^verbatim>\<open>[a-zA-Z0-9._-]\<close>.\<close>

definition isAllowed :: "char \<Rightarrow> bool" where
  "isAllowed c =
     (c \<in> set ''abcdefghijklmnopqrstuvwxyzABCDEFGHIJKLMNOPQRSTUVWXYZ0123456789._-'')"

text \<open>\<^verbatim>\<open>toLowerCase\<close> on code units below 256: the letters A to Z and the capital letters of
  Latin-1 have a lower-case form, 32 code units above.\<close>

definition upperChars :: string where
  "upperChars = ''ABCDEFGHIJKLMNOPQRSTUVWXYZ'' @
     [CHR 0xC0, CHR 0xC1, CHR 0xC2, CHR 0xC3, CHR 0xC4, CHR 0xC5, CHR 0xC6,
      CHR 0xC7, CHR 0xC8, CHR 0xC9, CHR 0xCA, CHR 0xCB, CHR 0xCC, CHR 0xCD,
      CHR 0xCE, CHR 0xCF, CHR 0xD0, CHR 0xD1, CHR 0xD2, CHR 0xD3, CHR 0xD4,
      CHR 0xD5, CHR 0xD6, CHR 0xD8, CHR 0xD9, CHR 0xDA, CHR 0xDB, CHR 0xDC,
      CHR 0xDD, CHR 0xDE]"

definition lowerChars :: string where
  "lowerChars = ''abcdefghijklmnopqrstuvwxyz'' @
     [CHR 0xE0, CHR 0xE1, CHR 0xE2, CHR 0xE3, CHR 0xE4, CHR 0xE5, CHR 0xE6,
      CHR 0xE7, CHR 0xE8, CHR 0xE9, CHR 0xEA, CHR 0xEB, CHR 0xEC, CHR 0xED,
      CHR 0xEE, CHR 0xEF, CHR 0xF0, CHR 0xF1, CHR 0xF2, CHR 0xF3, CHR 0xF4,
      CHR 0xF5, CHR 0xF6, CHR 0xF8, CHR 0xF9, CHR 0xFA, CHR 0xFB, CHR 0xFC,
      CHR 0xFD, CHR 0xFE]"

definition lowerChar :: "char \<Rightarrow> char" where
  "lowerChar c = (case map_of (zip upperChars lowerChars) c of None \<Rightarrow> c | Some d \<Rightarrow> d)"

definition toLowerCase :: "string \<Rightarrow> string" where
  "toLowerCase s = map lowerChar s"

text \<open>\<^verbatim>\<open>s.trim()\<close>.\<close>

definition trim :: "string \<Rightarrow> string" where
  "trim s = rev (dropWhile isSpace (rev (dropWhile isSpace s)))"

text \<open>\<^verbatim>\<open>s.replace(/\s+/g, "_")\<close>: every maximal run of white space becomes one underscore.
  The flag says whether the previous code unit was white space.\<close>

fun replaceSpaces :: "bool \<Rightarrow> string \<Rightarrow> string" where
  "replaceSpaces inRun [] = []"
| "replaceSpaces inRun (c # cs) =
     (if isSpace c then (if inRun then replaceSpaces True cs else CHR ''_'' # replaceSpaces True cs)
      else c # replaceSpaces False cs)"

text \<open>The decimal digits of a natural number, as a template literal prints it.\<close>

fun decimal :: "nat \<Rightarrow> string" where
  "decimal n =
     (if n < 10 then [''0123456789'' ! n] else decimal (n div 10) @ [''0123456789'' ! (n mod 10)])"

declare decimal.simps [simp del]

text \<open>
  The match of \<^verbatim>\<open>/\.(jpe?g|png|webp)$/i\<close> in a string: the matched text (\<^verbatim>\<open>m[0]\<close>), or
  \<open>None\<close> when the expression does not match. The expression is anchored at the end of
  the string and its four alternatives have a fixed length, so the match is the last four
  or five code units.
\<close>

definition endsWithCI :: "string \<Rightarrow> string \<Rightarrow> bool" where
  "endsWithCI e s = (length e \<le> length s \<and> toLowerCase (drop (length s - length e) s) = e)"

definition matchImageExt :: "string \<Rightarrow> string option" where
  "matchImageExt s =
     (if endsWithCI ''.jpg'' s \<or> endsWithCI ''.png'' s then Some (drop (length s - 4) s)
      else if endsWithCI ''.jpeg'' s \<or> endsWithCI ''.webp'' s then Some (drop (length s - 5) s)
      else None)"

section \<open>The data of the script\<close>

text \<open>
  The exceptions, the manifest, and the summary with its items. A JavaScript object that
  is used as a dictionary is the map of its own properties; no key of the manifest is the
  name of a member of \<^verbatim>\<open>Object.prototype\<close>. A value of the manifest is a string.
\<close>

datatype error = TypeError | SyntaxError | IOError | ConfigError | ApiError string

record manifest =
  version :: int
  firstSeen :: "string \<rightharpoonup> (string \<rightharpoonup> string)"

record item =
  filename :: string
  url :: string
  driveName :: "string option"
  itemFirstSeen :: string
  ageDays :: "int option"

record summary =
  breed :: string
  generatedAt :: string
  keepDays :: int
  current :: "item list"
  archiveCount :: nat

section \<open>The runtime\<close>

text \<open>
  The library functions of Node.js that the script calls are parameters of the model:
  \<^item> \<open>sha1\<close>: \<^verbatim>\<open>crypto.createHash("sha1").update(s).digest("hex")\<close>;
  \<^item> \<open>pathName\<close>: \<^verbatim>\<open>path.parse(p).name\<close>, and \<open>pathExtname\<close>: \<^verbatim>\<open>path.extname\<close>;
  \<^item> \<open>getTime\<close>: \<^verbatim>\<open>new Date(iso).getTime()\<close> in milliseconds, \<open>None\<close> for \<^verbatim>\<open>NaN\<close>
    (an invalid date);
  \<^item> \<open>dateNow\<close>: the value \<^verbatim>\<open>Date.now()\<close> returns during the \<open>i\<close>-th iteration of the loop
    of \<^verbatim>\<open>syncBreed\<close>;
  \<^item> \<open>pathJoin\<close>: \<^verbatim>\<open>path.join\<close> on the list of its arguments;
  \<^item> \<open>jsonParse\<close>: \<^verbatim>\<open>JSON.parse\<close> on the text of the manifest file, \<open>None\<close> when it
    throws;
  \<^item> \<open>stringifyManifest\<close>, \<open>stringifySummary\<close>: \<^verbatim>\<open>JSON.stringify(v, null, 2)\<close>.
\<close>

record runtime =
  sha1 :: "string \<Rightarrow> string"
  pathName :: "string \<Rightarrow> string"
  pathExtname :: "string \<Rightarrow> string"
  getTime :: "string \<Rightarrow> int option"
  dateNow :: "nat \<Rightarrow> nat"
  pathJoin :: "string list \<Rightarrow> string"
  jsonParse :: "string \<Rightarrow> manifest option"
  stringifyManifest :: "manifest \<Rightarrow> string"
  stringifySummary :: "summary \<Rightarrow> string"

section \<open>Retention classifier\<close>

definition DAYS_TO_KEEP_CURRENT :: int where
  "DAYS_TO_KEEP_CURRENT = 90"

text \<open>
  \<^verbatim>\<open>daysBetweenIso\<close>. The difference of two valid dates is an integer number of
  milliseconds; for a difference below \<open>2 ^ 53\<close> the floor of the double-precision
  quotient by 86400000 is the integer quotient, which is what the model computes. An
  invalid date makes the result \<^verbatim>\<open>NaN\<close> (\<open>None\<close>).
\<close>

definition daysBetweenIso :: "runtime \<Rightarrow> string \<Rightarrow> string \<Rightarrow> int option" where
  "daysBetweenIso rt olderIso newerIso =
     (case (getTime rt newerIso, getTime rt olderIso) of
        (Some newer, Some older) \<Rightarrow> Some ((newer - older) div (1000 * 60 * 60 * 24))
      | _ \<Rightarrow> None)"

text \<open>\<^verbatim>\<open>a > n\<close> on a number that may be \<^verbatim>\<open>NaN\<close>: every comparison with \<^verbatim>\<open>NaN\<close> is false.\<close>

definition jsGreater :: "int option \<Rightarrow> int \<Rightarrow> bool" where
  "jsGreater a n = (case a of None \<Rightarrow> False | Some d \<Rightarrow> d > n)"

datatype bucket = CURRENT | ARCHIVED

text \<open>
  The two lines of \<^verbatim>\<open>syncBreed\<close> that compute \<^verbatim>\<open>ageDays\<close> and \<^verbatim>\<open>isArchive\<close>, with the
  threshold as an argument; \<^verbatim>\<open>syncBreed\<close> passes \<open>DAYS_TO_KEEP_CURRENT\<close>.
\<close>

definition classify :: "runtime \<Rightarrow> string \<Rightarrow> string \<Rightarrow> int \<Rightarrow> bucket \<times> int option" where
  "classify rt firstSeenIso runNowIso thresholdDays =
     (let age = daysBetweenIso rt firstSeenIso runNowIso;
          isArchive = jsGreater age thresholdDays
      in (if isArchive then ARCHIVED else CURRENT, age))"

section \<open>Identity manifest\<close>

definition emptyManifest :: manifest where
  "emptyManifest = \<lparr>version = 1, firstSeen = Map.empty\<rparr>"

text \<open>\<^verbatim>\<open>get\<close>: the entry of a (collection, asset) pair.\<close>

definition getEntry :: "manifest \<Rightarrow> string \<Rightarrow> string \<Rightarrow> string option" where
  "getEntry m breedKey fileId =
     (case firstSeen m breedKey of None \<Rightarrow> None | Some sub \<Rightarrow> sub fileId)"

text \<open>\<^verbatim>\<open>manifest.firstSeen[breedKey] = manifest.firstSeen[breedKey] || {}\<close>.\<close>

definition ensureBreed :: "manifest \<Rightarrow> string \<Rightarrow> manifest" where
  "ensureBreed m breedKey =
     m\<lparr>firstSeen := (firstSeen m)(breedKey \<mapsto>
         (case firstSeen m breedKey of None \<Rightarrow> Map.empty | Some sub \<Rightarrow> sub))\<rparr>"

text \<open>
  \<^verbatim>\<open>touch\<close>: the first statements of the loop body of \<^verbatim>\<open>syncBreed\<close>. They store
  \<^verbatim>\<open>runNowIso\<close> when the entry is falsy, and read the entry back. Reading a property of
  a missing \<^verbatim>\<open>manifest.firstSeen[breedKey]\<close> throws a \<^verbatim>\<open>TypeError\<close>.
\<close>

definition store :: "manifest \<Rightarrow> string \<Rightarrow> (string \<rightharpoonup> string) \<Rightarrow> string \<Rightarrow> string \<Rightarrow> manifest" where
  "store m breedKey sub fileId runNowIso =
     m\<lparr>firstSeen := (firstSeen m)(breedKey \<mapsto> sub(fileId \<mapsto> runNowIso))\<rparr>"

definition touch :: "manifest \<Rightarrow> string \<Rightarrow> string \<Rightarrow> string \<Rightarrow> error + (string \<times> manifest)" where
  "touch m breedKey fileId runNowIso =
     (case firstSeen m breedKey of
        None \<Rightarrow> Inl TypeError
      | Some sub \<Rightarrow>
          (case sub fileId of
             None \<Rightarrow> Inr (runNowIso, store m breedKey sub fileId runNowIso)
           | Some v \<Rightarrow>
               if v = [] then Inr (runNowIso, store m breedKey sub fileId runNowIso)
               else Inr (v, m)))"

section \<open>Remote asset lister\<close>

text \<open>
  One entry of a Drive listing. \<open>createdTime\<close> and \<open>modifiedTime\<close> hold the instant
  (milliseconds since the epoch) that \<^verbatim>\<open>new Date\<close> reads from the field; Drive sends both,
  and \<open>modifiedTime = None\<close> is a missing or empty field, for which the comparison of the
  sort falls back on \<open>createdTime\<close>.
\<close>

record remote_file =
  fid :: string
  fname :: "string option"
  mimeType :: "string option"
  createdTime :: int
  modifiedTime :: "int option"

text \<open>The body of the inner loop of \<^verbatim>\<open>listFilesInFolder\<close>: is the entry pushed?\<close>

definition isImage :: "remote_file \<Rightarrow> bool" where
  "isImage f =
     (if \<not> truthy (mimeType f) then False
      else prefix ''image/'' (orElse (mimeType f) [])
           \<or> matchImageExt (orElse (fname f) []) \<noteq> None)"

definition fileTime :: "remote_file \<Rightarrow> int" where
  "fileTime f = (case modifiedTime f of None \<Rightarrow> createdTime f | Some t \<Rightarrow> t)"

text \<open>
  \<^verbatim>\<open>files.sort((a, b) => new Date(b...) - new Date(a...))\<close>: \<^verbatim>\<open>Array.prototype.sort\<close> is a
  stable sort, here by descending time; \<open>sort_key\<close> is the stable insertion sort.
\<close>

definition sortFiles :: "remote_file list \<Rightarrow> remote_file list" where
  "sortFiles files = sort_key (\<lambda>f. - fileTime f) files"

text \<open>The answer of \<^verbatim>\<open>drive.files.list\<close>: \<^verbatim>\<open>res.data.files\<close> and \<^verbatim>\<open>res.data.nextPageToken\<close>.\<close>

record page =
  pageFiles :: "remote_file list option"
  nextPageToken :: "string option"

text \<open>The answer of the metadata request of \<^verbatim>\<open>downloadDriveImageToRepo\<close>.\<close>

record file_meta =
  metaName :: "string option"
  metaMimeType :: "string option"

text \<open>
  The Drive client. \<open>filesList folderId pageToken\<close> is one page of the listing of a
  folder, \<open>filesGetMedia fileId\<close> the content of a file as one buffer, \<open>filesGetMeta\<close> its
  metadata, and \<open>filesGetStream\<close> its content as a stream: the bytes delivered, and the
  error of the stream if it breaks after them. \<open>Inl\<close> is a rejected request.
\<close>

record drive =
  filesList :: "string \<Rightarrow> string option \<Rightarrow> error + page"
  filesGetMedia :: "string \<Rightarrow> error + string"
  filesGetMeta :: "string \<Rightarrow> error + file_meta"
  filesGetStream :: "string \<Rightarrow> error + (string \<times> error option)"

definition imagesOf :: "page \<Rightarrow> remote_file list" where
  "imagesOf res = filter isImage (case pageFiles res of None \<Rightarrow> [] | Some fs \<Rightarrow> fs)"

text \<open>
  The \<^verbatim>\<open>while (true)\<close> loop of \<^verbatim>\<open>listFilesInFolder\<close>. It runs for as long as Drive sends a
  page token, so it is a partial function: \<open>None\<close> is a loop that never ends.
\<close>

partial_function (option) listLoop ::
  "drive \<Rightarrow> string \<Rightarrow> string option \<Rightarrow> remote_file list \<Rightarrow> (error + remote_file list) option" where
  "listLoop d folderId pageToken files =
     (case filesList d folderId pageToken of
        Inl e \<Rightarrow> Some (Inl e)
      | Inr res \<Rightarrow>
          if \<not> truthy (nextPageToken res) then Some (Inr (files @ imagesOf res))
          else listLoop d folderId (nextPageToken res) (files @ imagesOf res))"

definition listFilesInFolder :: "drive \<Rightarrow> string \<Rightarrow> (error + remote_file list) option" where
  "listFilesInFolder d folderId =
     (case listLoop d folderId None [] of
        None \<Rightarrow> None
      | Some (Inl e) \<Rightarrow> Some (Inl e)
      | Some (Inr files) \<Rightarrow> Some (Inr (sortFiles files)))"

section \<open>Stable namer\<close>

text \<open>\<^verbatim>\<open>safeFilename\<close>, called during iteration \<open>i\<close> of the loop.\<close>

definition safeFilename :: "runtime \<Rightarrow> nat \<Rightarrow> string \<Rightarrow> string" where
  "safeFilename rt i name =
     (let base = trim (filter isAllowed (replaceSpaces False name))
      in if base \<noteq> [] then base else ''photo_'' @ decimal (dateNow rt i) @ ''.jpg'')"

definition extOf :: "remote_file \<Rightarrow> string" where
  "extOf f =
     (case matchImageExt (orElse (fname f) []) of
        None \<Rightarrow> ''.jpg''
      | Some m \<Rightarrow> toLowerCase m)"

definition stableName :: "runtime \<Rightarrow> nat \<Rightarrow> remote_file \<Rightarrow> string" where
  "stableName rt i f =
     safeFilename rt i (pathName rt (orElse (fname f) ''photo''))
       @ ''_'' @ take 10 (sha1 rt (fid f)) @ extOf f"

section \<open>The file system and the fetcher\<close>

text \<open>
  A file has its bytes and may be unreadable to the process. The world is the file
  system (files by path; directories are not modelled, so \<^verbatim>\<open>ensureDir\<close> has no effect in
  the model) and the content and metadata requests sent to Drive so far, oldest first.
\<close>

record fnode =
  bytes :: string
  readable :: bool

datatype request = GetMedia string | GetMeta string

record world =
  fsys :: "string \<rightharpoonup> fnode"
  requests :: "request list"

definition existsSync :: "world \<Rightarrow> string \<Rightarrow> bool" where
  "existsSync w p = (fsys w p \<noteq> None)"

definition readFileSync :: "world \<Rightarrow> string \<Rightarrow> error + string" where
  "readFileSync w p =
     (case fsys w p of
        None \<Rightarrow> Inl IOError
      | Some n \<Rightarrow> if readable n then Inr (bytes n) else Inl IOError)"

text \<open>\<^verbatim>\<open>fs.writeFileSync\<close> replaces the bytes of a file and keeps its mode, or creates it.\<close>

definition writeFileSync :: "world \<Rightarrow> string \<Rightarrow> string \<Rightarrow> world" where
  "writeFileSync w p content =
     w\<lparr>fsys := (fsys w)(p \<mapsto>
         \<lparr>bytes = content, readable = (case fsys w p of None \<Rightarrow> True | Some n \<Rightarrow> readable n)\<rparr>)\<rparr>"

text \<open>\<^verbatim>\<open>downloadFile\<close>. A rejected request throws before anything is written.\<close>

definition downloadFile :: "drive \<Rightarrow> string \<Rightarrow> string \<Rightarrow> world \<Rightarrow> (error \<times> world) + world" where
  "downloadFile d fileId outPath w =
     (let w1 = w\<lparr>requests := requests w @ [GetMedia fileId]\<rparr>
      in case filesGetMedia d fileId of
           Inl e \<Rightarrow> Inl (e, w1)
         | Inr content \<Rightarrow> Inr (writeFileSync w1 outPath content))"

text \<open>\<^verbatim>\<open>if (!fs.existsSync(destPath)) { await downloadFile(drive, f.id, destPath); }\<close>\<close>

definition ensureMaterialized :: "drive \<Rightarrow> string \<Rightarrow> string \<Rightarrow> world \<Rightarrow> (error \<times> world) + world" where
  "ensureMaterialized d fileId destPath w =
     (if \<not> existsSync w destPath then downloadFile d fileId destPath w else Inr w)"

section \<open>Sync orchestrator\<close>

definition baseDir :: "runtime \<Rightarrow> string \<Rightarrow> string" where
  "baseDir rt breedKey = pathJoin rt [''images'', ''puppies'', breedKey]"

definition currentDir :: "runtime \<Rightarrow> string \<Rightarrow> string" where
  "currentDir rt breedKey = pathJoin rt [baseDir rt breedKey, ''current'']"

definition archiveDir :: "runtime \<Rightarrow> string \<Rightarrow> string" where
  "archiveDir rt breedKey = pathJoin rt [baseDir rt breedKey, ''archive'']"

definition dataDir :: string where
  "dataDir = ''data''"

definition summaryPath :: "runtime \<Rightarrow> string \<Rightarrow> string" where
  "summaryPath rt breedKey = pathJoin rt [dataDir, ''puppy-photos-'' @ breedKey @ ''.json'']"

definition MANIFEST_PATH :: "runtime \<Rightarrow> string" where
  "MANIFEST_PATH rt = pathJoin rt [''data'', ''puppy-photo-manifest.json'']"

text \<open>\<^verbatim>\<open>`./${destPath.replace(/\\/g, "/")}`\<close>\<close>

definition relUrl :: "string \<Rightarrow> string" where
  "relUrl destPath = ''./'' @ map (\<lambda>c. if c = CHR 0x5C then CHR ''/'' else c) destPath"

text \<open>The variables of \<^verbatim>\<open>syncBreed\<close> that its loop changes, with the world.\<close>

record sync_state =
  stWorld :: world
  stManifest :: manifest
  stCurrent :: "item list"
  stArchiveCount :: nat

text \<open>
  One iteration of the loop of \<^verbatim>\<open>syncBreed\<close>, the \<open>i\<close>-th, on the file \<open>f\<close>. An exception
  leaves the loop and the function: it is returned with the world as it is then.
\<close>

definition syncFile ::
  "runtime \<Rightarrow> drive \<Rightarrow> string \<Rightarrow> string \<Rightarrow> nat \<Rightarrow> remote_file \<Rightarrow> sync_state
     \<Rightarrow> (error \<times> world) + sync_state" where
  "syncFile rt d breedKey runNowIso i f st =
     (case touch (stManifest st) breedKey (fid f) runNowIso of
        Inl e \<Rightarrow> Inl (e, stWorld st)
      | Inr (firstSeenIso, m') \<Rightarrow>
          (let (b, age) = classify rt firstSeenIso runNowIso DAYS_TO_KEEP_CURRENT;
               isArchive = (b = ARCHIVED);
               name = stableName rt i f;
               destDir = (if isArchive then archiveDir rt breedKey else currentDir rt breedKey);
               destPath = pathJoin rt [destDir, name]
           in case ensureMaterialized d (fid f) destPath (stWorld st) of
                Inl ew \<Rightarrow> Inl ew
              | Inr w' \<Rightarrow>
                  if isArchive
                  then Inr (st\<lparr>stWorld := w', stManifest := m',
                               stArchiveCount := stArchiveCount st + 1\<rparr>)
                  else Inr (st\<lparr>stWorld := w', stManifest := m',
                               stCurrent := stCurrent st @
                                 [\<lparr>filename = name, url = relUrl destPath, driveName = fname f,
                                   itemFirstSeen = firstSeenIso, ageDays = age\<rparr>]\<rparr>)))"

fun syncLoop ::
  "runtime \<Rightarrow> drive \<Rightarrow> string \<Rightarrow> string \<Rightarrow> nat \<Rightarrow> remote_file list \<Rightarrow> sync_state
     \<Rightarrow> (error \<times> world) + sync_state" where
  "syncLoop rt d breedKey runNowIso i [] st = Inr st"
| "syncLoop rt d breedKey runNowIso i (f # fs) st =
     (case syncFile rt d breedKey runNowIso i f st of
        Inl ew \<Rightarrow> Inl ew
      | Inr st' \<Rightarrow> syncLoop rt d breedKey runNowIso (Suc i) fs st')"

text \<open>
  \<^verbatim>\<open>syncBreed\<close>. The result is \<open>None\<close> when the listing never ends, the exception and the
  world when it throws, and else the world, the manifest and the summary it has written.
\<close>

definition syncBreed ::
  "runtime \<Rightarrow> drive \<Rightarrow> string \<Rightarrow> string \<Rightarrow> manifest \<Rightarrow> string \<Rightarrow> world
     \<Rightarrow> ((error \<times> world) + (world \<times> manifest \<times> summary)) option" where
  "syncBreed rt d breedKey folderId m runNowIso w =
     (case listFilesInFolder d folderId of
        None \<Rightarrow> None
      | Some (Inl e) \<Rightarrow> Some (Inl (e, w))
      | Some (Inr files) \<Rightarrow>
          (case syncLoop rt d breedKey runNowIso 0 files
                  \<lparr>stWorld = w, stManifest = ensureBreed m breedKey,
                   stCurrent = [], stArchiveCount = 0\<rparr> of
             Inl ew \<Rightarrow> Some (Inl ew)
           | Inr st \<Rightarrow>
               (let out = \<lparr>breed = breedKey, generatedAt = runNowIso,
                           keepDays = DAYS_TO_KEEP_CURRENT, current = stCurrent st,
                           archiveCount = stArchiveCount st\<rparr>
                in Some (Inr (writeFileSync (stWorld st) (summaryPath rt breedKey)
                                (stringifySummary rt out),
                              stManifest st, out)))))"

text \<open>
  \<^verbatim>\<open>readManifest\<close>: the \<^verbatim>\<open>try\<close> block, and the function with its \<^verbatim>\<open>catch\<close>. The text of the
  file is read as a manifest; a text that \<^verbatim>\<open>JSON.parse\<close> accepts is taken to have the shape
  of a manifest, as the script takes it.
\<close>

definition readManifestTry :: "runtime \<Rightarrow> world \<Rightarrow> error + manifest" where
  "readManifestTry rt w =
     (if \<not> existsSync w (MANIFEST_PATH rt) then Inr emptyManifest
      else case readFileSync w (MANIFEST_PATH rt) of
             Inl e \<Rightarrow> Inl e
           | Inr text \<Rightarrow>
               (case jsonParse rt text of None \<Rightarrow> Inl SyntaxError | Some m \<Rightarrow> Inr m))"

definition readManifest :: "runtime \<Rightarrow> world \<Rightarrow> error + manifest" where
  "readManifest rt w =
     (case readManifestTry rt w of Inl e \<Rightarrow> Inr emptyManifest | Inr m \<Rightarrow> Inr m)"

definition writeManifest :: "runtime \<Rightarrow> manifest \<Rightarrow> world \<Rightarrow> world" where
  "writeManifest rt m w = writeFileSync w (MANIFEST_PATH rt) (stringifyManifest rt m)"

text \<open>
  \<^verbatim>\<open>main\<close>, once the Drive client is made: the two folder ids of the environment, the
  string \<^verbatim>\<open>nowIso()\<close> returns, and the world.
\<close>

definition main ::
  "runtime \<Rightarrow> drive \<Rightarrow> string option \<Rightarrow> string option \<Rightarrow> string \<Rightarrow> world
     \<Rightarrow> ((error \<times> world) + world) option" where
  "main rt d bouviersId lowchenId runNowIso w =
     (if \<not> truthy bouviersId \<or> \<not> truthy lowchenId then Some (Inl (ConfigError, w))
      else case readManifest rt w of
        Inl e \<Rightarrow> Some (Inl (e, w))
      | Inr m \<Rightarrow>
          (case syncBreed rt d ''bouviers'' (orElse bouviersId []) m runNowIso w of
             None \<Rightarrow> None
           | Some (Inl ew) \<Rightarrow> Some (Inl ew)
           | Some (Inr (w1, m1, out1)) \<Rightarrow>
               (case syncBreed rt d ''lowchen'' (orElse lowchenId []) m1 runNowIso w1 of
                  None \<Rightarrow> None
                | Some (Inl ew) \<Rightarrow> Some (Inl ew)
                | Some (Inr (w2, m2, out2)) \<Rightarrow> Some (Inr (writeManifest rt m2 w2)))))"

section \<open>The fetcher of the availability export\<close>

definition extFromMime :: "string \<Rightarrow> string" where
  "extFromMime mime =
     (let mt = toLowerCase mime
      in if mt = ''image/jpeg'' then ''jpg''
         else if mt = ''image/png'' then ''png''
         else if mt = ''image/webp'' then ''webp''
         else if mt = ''image/gif'' then ''gif''
         else if mt = ''image/heic'' \<or> mt = ''image/heif'' then ''heic''
         else [])"

text \<open>\<^verbatim>\<open>s.replace(".", "")\<close> removes the first dot.\<close>

fun removeFirstDot :: "string \<Rightarrow> string" where
  "removeFirstDot [] = []"
| "removeFirstDot (c # cs) = (if c = CHR ''.'' then cs else c # removeFirstDot cs)"

definition extFromName :: "runtime \<Rightarrow> string \<Rightarrow> string" where
  "extFromName rt name = toLowerCase (removeFirstDot (pathExtname rt (trim name)))"

definition statSize :: "world \<Rightarrow> string \<Rightarrow> nat" where
  "statSize w p = (case fsys w p of None \<Rightarrow> 0 | Some n \<Rightarrow> length (bytes n))"

text \<open>
  \<^verbatim>\<open>downloadDriveImageToRepo\<close>; the result is \<^verbatim>\<open>{ outPath, outName, ext }\<close>. The write stream
  creates or truncates the file when it is opened and receives what the response
  delivers; a stream that breaks rejects the promise.
\<close>

definition downloadDriveImageToRepo ::
  "runtime \<Rightarrow> drive \<Rightarrow> string \<Rightarrow> string \<Rightarrow> world
     \<Rightarrow> (error \<times> world) + ((string \<times> string \<times> string) \<times> world)" where
  "downloadDriveImageToRepo rt d fileId destDir w =
     (let w1 = w\<lparr>requests := requests w @ [GetMeta fileId]\<rparr>
      in case filesGetMeta d fileId of
           Inl e \<Rightarrow> Inl (e, w1)
         | Inr metaRes \<Rightarrow>
             (let name = orElse (metaName metaRes) fileId;
                  mime = orElse (metaMimeType metaRes) [];
                  ext0 = orElse (Some (extFromName rt name))
                           (orElse (Some (extFromMime mime)) ''jpg'');
                  ext = (if ext0 = [] then ''jpg'' else ext0);
                  outName = fileId @ ''.'' @ ext;
                  outPath = pathJoin rt [destDir, outName]
              in if existsSync w1 outPath \<and> statSize w1 outPath > 0
                 then Inr ((outPath, outName, ext), w1)
                 else (let w2 = w1\<lparr>requests := requests w1 @ [GetMedia fileId]\<rparr>
                       in case filesGetStream d fileId of
                            Inl e \<Rightarrow> Inl (e, w2)
                          | Inr (content, broken) \<Rightarrow>
                              (let w3 = writeFileSync w2 outPath content
                               in case broken of
                                    None \<Rightarrow> Inr ((outPath, outName, ext), w3)
                                  | Some e \<Rightarrow> Inl (e, w3)))))"

section \<open>Notions for the statements\<close>

text \<open>
  \<open>pagesFrom d folderId pageToken pages\<close>: from the page token on, Drive answers the
  listing of the folder with exactly these pages, each but the last with a token for the
  next one.
\<close>

fun pagesFrom :: "drive \<Rightarrow> string \<Rightarrow> string option \<Rightarrow> page list \<Rightarrow> bool" where
  "pagesFrom d folderId pageToken [] = False"
| "pagesFrom d folderId pageToken (res # rest) =
     (filesList d folderId pageToken = Inr res \<and>
      (if rest = [] then \<not> truthy (nextPageToken res)
       else truthy (nextPageToken res) \<and> pagesFrom d folderId (nextPageToken res) rest))"

text \<open>
  \<open>archivedIn rt m breedKey runNowIso f\<close>: by the first-seen entry that the manifest \<open>m\<close>
  has for the file, the file is older than the threshold at \<open>runNowIso\<close>.
\<close>

definition archivedIn :: "runtime \<Rightarrow> manifest \<Rightarrow> string \<Rightarrow> string \<Rightarrow> remote_file \<Rightarrow> bool" where
  "archivedIn rt m breedKey runNowIso f =
     (case getEntry m breedKey (fid f) of
        None \<Rightarrow> False
      | Some firstSeenIso \<Rightarrow>
          fst (classify rt firstSeenIso runNowIso DAYS_TO_KEEP_CURRENT) = ARCHIVED)"

section \<open>A runtime for the examples\<close>

text \<open>
  The examples below run the model on concrete inputs. Their runtime agrees with Node.js
  on POSIX on the arguments that the examples pass:
  \<^item> \<open>posixName\<close> is \<^verbatim>\<open>path.parse(p).name\<close>: the last segment of the path, without the
    extension that starts at its last dot; a segment with no dot, with its only dot in
    front, or equal to \<^verbatim>\<open>..\<close> has no extension;
  \<^item> \<open>posixExtname\<close> is \<^verbatim>\<open>path.extname\<close>: what follows that name in the last segment;
  \<^item> \<open>posixJoin\<close> is \<^verbatim>\<open>path.join\<close> on segments that need no normalisation;
  \<^item> \<open>isoTime\<close> gives the time value of three ISO timestamps, and \<^verbatim>\<open>NaN\<close> for a text
    that is no date;
  \<^item> \<open>sha1Hex\<close> gives the SHA-1 digest of four asset ids;
  \<^item> \<open>parseText\<close> reads the text \<^verbatim>\<open>stored manifest\<close>, which stands for the JSON text of
    \<open>oldManifest\<close>, and rejects the corrupt text of the examples;
  \<^item> the two renderings stand for \<^verbatim>\<open>JSON.stringify\<close>, of which no example reads the
    result.
\<close>

definition posixBase :: "string \<Rightarrow> string" where
  "posixBase p =
     rev (takeWhile (\<lambda>c. c \<noteq> CHR ''/'') (dropWhile (\<lambda>c. c = CHR ''/'') (rev p)))"

definition posixName :: "string \<Rightarrow> string" where
  "posixName p =
     (let b = posixBase p;
          stem = rev (drop 1 (dropWhile (\<lambda>c. c \<noteq> CHR ''.'') (rev b)))
      in if CHR ''.'' \<notin> set b \<or> stem = [] \<or> b = ''..'' then b else stem)"

definition posixExtname :: "string \<Rightarrow> string" where
  "posixExtname p = drop (length (posixName p)) (posixBase p)"

fun posixJoin :: "string list \<Rightarrow> string" where
  "posixJoin [] = ''.''"
| "posixJoin [s] = s"
| "posixJoin (s # ss) = s @ ''/'' @ posixJoin ss"

definition isoTime :: "string \<Rightarrow> int option" where
  "isoTime s =
     (if s = ''2024-01-01T00:00:00.000Z'' then Some 1704067200000
      else if s = ''2024-03-31T00:00:00.000Z'' then Some 1711843200000
      else if s = ''2024-04-01T00:00:00.000Z'' then Some 1711929600000
      else None)"

definition sha1Hex :: "string \<Rightarrow> string" where
  "sha1Hex s =
     (if s = ''id1'' then ''4e89d81a2e6fb4be2578d245fd8511c1f4ad0b58''
      else if s = ''id2'' then ''867d5f8110f8aa79dd63d7440f21724264f10430''
      else if s = ''photo-288017'' then ''941fe6d34b24a77a6be9ae3b1f2a4ae26e870aff''
      else if s = ''photo-967279'' then ''941fe6d34b03ace7db4f7513802dedc4be750bc4''
      else [])"

definition oldManifest :: manifest where
  "oldManifest =
     \<lparr>version = 1,
      firstSeen = [''bouviers'' \<mapsto> [''id1'' \<mapsto> ''2024-01-01T00:00:00.000Z'',
                                    ''gone'' \<mapsto> ''2024-01-01T00:00:00.000Z'']]\<rparr>"

definition parseText :: "string \<Rightarrow> manifest option" where
  "parseText s = (if s = ''stored manifest'' then Some oldManifest else None)"

definition node :: runtime where
  "node = \<lparr>sha1 = sha1Hex, pathName = posixName, pathExtname = posixExtname, getTime = isoTime,
           dateNow = (\<lambda>i. 1711929600000 + i), pathJoin = posixJoin, jsonParse = parseText,
           stringifyManifest = (\<lambda>m. ''manifest''), stringifySummary = (\<lambda>s. ''summary'')\<rparr>"

section \<open>A Drive for the examples\<close>

text \<open>
  Folder A holds, on two pages, an image, a picture without MIME type, a picture with a
  generic MIME type and a text file; folder B holds two images of the same name, the
  second one modified last; the answer for folder C has no list of files. The Drive
  \<open>flaky\<close> differs from \<open>healthy\<close> in that it rejects the download of \<open>id2\<close>. The worlds
  are: \<open>blank\<close> with no file, \<open>kept\<close> with an older download of \<open>id1\<close> in both scripts' places,
  and \<open>stored\<close> with a manifest file.
\<close>

definition buddy1 :: remote_file where
  "buddy1 = \<lparr>fid = ''id1'', fname = Some ''Buddy.jpg'', mimeType = Some ''image/jpeg'',
             createdTime = 1704067200000, modifiedTime = Some 1704067200000\<rparr>"

definition buddy2 :: remote_file where
  "buddy2 = \<lparr>fid = ''id2'', fname = Some ''Buddy.jpg'', mimeType = Some ''image/jpeg'',
             createdTime = 1704067200000, modifiedTime = Some 1711843200000\<rparr>"

definition noMime :: remote_file where
  "noMime = \<lparr>fid = ''id3'', fname = Some ''pup.jpg'', mimeType = None,
             createdTime = 1704067200000, modifiedTime = Some 1704067200000\<rparr>"

definition generic :: remote_file where
  "generic = \<lparr>fid = ''id4'', fname = Some ''pup.PNG'',
              mimeType = Some ''application/octet-stream'',
              createdTime = 1704067200000, modifiedTime = Some 1711929600000\<rparr>"

definition textFile :: remote_file where
  "textFile = \<lparr>fid = ''id5'', fname = Some ''notes.txt'', mimeType = Some ''text/plain'',
            createdTime = 1704067200000, modifiedTime = Some 1704067200000\<rparr>"

definition folders :: "string \<Rightarrow> string option \<Rightarrow> error + page" where
  "folders folderId pageToken =
     (if folderId = ''folderA'' \<and> pageToken = None
      then Inr \<lparr>pageFiles = Some [buddy1, noMime], nextPageToken = Some ''page2''\<rparr>
      else if folderId = ''folderA'' \<and> pageToken = Some ''page2''
      then Inr \<lparr>pageFiles = Some [generic, textFile], nextPageToken = None\<rparr>
      else if folderId = ''folderB'' \<and> pageToken = None
      then Inr \<lparr>pageFiles = Some [buddy1, buddy2], nextPageToken = None\<rparr>
      else if folderId = ''folderC'' \<and> pageToken = None
      then Inr \<lparr>pageFiles = None, nextPageToken = None\<rparr>
      else Inl (ApiError ''notFound''))"

definition healthy :: drive where
  "healthy =
     \<lparr>filesList = folders,
      filesGetMedia = (\<lambda>fileId. if fileId = ''id1'' then Inr ''JPEG-1''
                        else if fileId = ''id2'' then Inr ''JPEG-2''
                        else Inl (ApiError ''notFound'')),
      filesGetMeta = (\<lambda>fileId. if fileId = ''id1''
                        then Inr \<lparr>metaName = Some ''Buddy.jpg'',
                                  metaMimeType = Some ''image/jpeg''\<rparr>
                        else Inl (ApiError ''notFound'')),
      filesGetStream = (\<lambda>fileId. if fileId = ''id1'' then Inr (''JPEG-1'', None)
                        else Inl (ApiError ''notFound''))\<rparr>"

definition flaky :: drive where
  "flaky = healthy\<lparr>filesGetMedia := (\<lambda>fileId. if fileId = ''id1'' then Inr ''JPEG-1''
                                        else Inl (ApiError ''timeout''))\<rparr>"

definition blank :: world where
  "blank = \<lparr>fsys = Map.empty, requests = []\<rparr>"

definition kept :: world where
  "kept = \<lparr>fsys = [''images/puppies/bouviers/current/Buddy_4e89d81a2e.jpg''
                    \<mapsto> \<lparr>bytes = ''OLD'', readable = True\<rparr>,
                  ''assets/available-photos/id1.jpg'' \<mapsto> \<lparr>bytes = ''OLD'', readable = True\<rparr>],
           requests = []\<rparr>"

definition stored :: world where
  "stored = \<lparr>fsys = [''data/puppy-photo-manifest.json''
                      \<mapsto> \<lparr>bytes = ''stored manifest'', readable = True\<rparr>],
             requests = []\<rparr>"

text \<open>What the first run on folder B leaves behind, at midnight of 1 April 2024.\<close>

definition firstRunWorld :: world where
  "firstRunWorld =
     \<lparr>fsys = [''images/puppies/bouviers/current/Buddy_867d5f8110.jpg''
                 \<mapsto> \<lparr>bytes = ''JPEG-2'', readable = True\<rparr>,
               ''images/puppies/bouviers/current/Buddy_4e89d81a2e.jpg''
                 \<mapsto> \<lparr>bytes = ''JPEG-1'', readable = True\<rparr>,
               ''data/puppy-photos-bouviers.json''
                 \<mapsto> \<lparr>bytes = ''summary'', readable = True\<rparr>],
      requests = [GetMedia ''id2'', GetMedia ''id1'']\<rparr>"

definition firstRunManifest :: manifest where
  "firstRunManifest =
     \<lparr>version = 1,
      firstSeen = [''bouviers'' \<mapsto> [''id2'' \<mapsto> ''2024-04-01T00:00:00.000Z'',
                                    ''id1'' \<mapsto> ''2024-04-01T00:00:00.000Z'']]\<rparr>"

definition firstRunSummary :: summary where
  "firstRunSummary =
     \<lparr>breed = ''bouviers'', generatedAt = ''2024-04-01T00:00:00.000Z'',
      keepDays = DAYS_TO_KEEP_CURRENT,
      current =
        [\<lparr>filename = ''Buddy_867d5f8110.jpg'',
           url = ''./images/puppies/bouviers/current/Buddy_867d5f8110.jpg'',
           driveName = Some ''Buddy.jpg'', itemFirstSeen = ''2024-04-01T00:00:00.000Z'',
           ageDays = Some 0\<rparr>,
         \<lparr>filename = ''Buddy_4e89d81a2e.jpg'',
           url = ''./images/puppies/bouviers/current/Buddy_4e89d81a2e.jpg'',
           driveName = Some ''Buddy.jpg'', itemFirstSeen = ''2024-04-01T00:00:00.000Z'',
           ageDays = Some 0\<rparr>],
      archiveCount = 0\<rparr>"

section \<open>Properties\<close>

lemma node_simps [simp]:
  "sha1 node = sha1Hex" "pathName node = posixName" "getTime node = isoTime"
  "dateNow node = (\<lambda>i. 1711929600000 + i)" "pathJoin node = posixJoin"
  "pathExtname node = posixExtname"
  "stringifyManifest node = (\<lambda>m. ''manifest'')" "stringifySummary node = (\<lambda>s. ''summary'')"
  "jsonParse node = parseText"
  by (simp_all add: node_def)

subsection \<open>Evaluation of the examples\<close>

lemma healthy_simps [simp]: "filesList healthy = folders"
  "filesGetMedia healthy = (\<lambda>fileId. if fileId = ''id1'' then Inr ''JPEG-1''
                        else if fileId = ''id2'' then Inr ''JPEG-2''
                        else Inl (ApiError ''notFound''))"
  "filesGetMeta healthy = (\<lambda>fileId. if fileId = ''id1''
                        then Inr \<lparr>metaName = Some ''Buddy.jpg'', metaMimeType = Some ''image/jpeg''\<rparr>
                        else Inl (ApiError ''notFound''))"
  "filesGetStream healthy = (\<lambda>fileId. if fileId = ''id1'' then Inr (''JPEG-1'', None)
                        else Inl (ApiError ''notFound''))"
  by (simp_all add: healthy_def)

lemmas ext_defs = matchImageExt_def endsWithCI_def toLowerCase_def lowerChar_def
  upperChars_def lowerChars_def

lemma ext_jpg:
  "matchImageExt ''Buddy.jpg'' = Some ''.jpg''" "matchImageExt ''!.jpg'' = Some ''.jpg''"
  "toLowerCase ''.jpg'' = ''.jpg''"
  by (simp_all add: ext_defs)

lemmas name_defs = stableName_def safeFilename_def trim_def isAllowed_def isSpace_def
  posixName_def posixBase_def sha1Hex_def extOf_def orElse_def decimal.simps ext_jpg

lemma buddy1_name: "stableName node i buddy1 = ''Buddy_4e89d81a2e.jpg''"
  by (simp add: name_defs buddy1_def)

lemma buddy2_name: "stableName node i buddy2 = ''Buddy_867d5f8110.jpg''"
  by (simp add: name_defs buddy2_def)

lemma ext_buddy: "extFromName node ''Buddy.jpg'' = ''jpg''"
  by (simp add: extFromName_def posixExtname_def posixName_def posixBase_def trim_def
      isSpace_def toLowerCase_def lowerChar_def upperChars_def lowerChars_def)

lemma kept_simps:
  "fsys kept ''assets/available-photos/id1.jpg'' = Some \<lparr>bytes = ''OLD'', readable = True\<rparr>"
  "requests kept = []"
  by (simp_all add: kept_def)

lemma strict_skip:
  "downloadDriveImageToRepo node healthy ''id1'' ''assets/available-photos'' kept
     = Inr ((''assets/available-photos/id1.jpg'', ''id1.jpg'', ''jpg''),
            kept\<lparr>requests := [GetMeta ''id1'']\<rparr>)"
  by (simp add: downloadDriveImageToRepo_def ext_buddy kept_simps orElse_def
      existsSync_def statSize_def Let_def)

lemma strict_fetch:
  "downloadDriveImageToRepo node healthy ''id1'' ''assets/available-photos'' blank
     = Inr ((''assets/available-photos/id1.jpg'', ''id1.jpg'', ''jpg''),
            \<lparr>fsys = [''assets/available-photos/id1.jpg'' \<mapsto> \<lparr>bytes = ''JPEG-1'', readable = True\<rparr>],
             requests = [GetMeta ''id1'', GetMedia ''id1'']\<rparr>)"
  by (simp add: downloadDriveImageToRepo_def ext_buddy blank_def orElse_def
      existsSync_def statSize_def writeFileSync_def Let_def)

lemma buddy_fields [simp]:
  "fid buddy1 = ''id1''" "fname buddy1 = Some ''Buddy.jpg''"
  "fid buddy2 = ''id2''" "fname buddy2 = Some ''Buddy.jpg''"
  "modifiedTime buddy1 = Some 1704067200000" "modifiedTime buddy2 = Some 1711843200000"
  by (simp_all add: buddy1_def buddy2_def)

lemma flaky_simps [simp]: "filesList flaky = folders"
  "filesGetMedia flaky = (\<lambda>fileId. if fileId = ''id1'' then Inr ''JPEG-1''
                                        else Inl (ApiError ''timeout''))"
  by (simp_all add: flaky_def)

lemma age_today:
  "classify node ''2024-04-01T00:00:00.000Z'' ''2024-04-01T00:00:00.000Z'' DAYS_TO_KEEP_CURRENT
     = (CURRENT, Some 0)"
  by (simp add: classify_def daysBetweenIso_def jsGreater_def isoTime_def DAYS_TO_KEEP_CURRENT_def)

lemma age_old:
  "classify node ''2024-01-01T00:00:00.000Z'' ''2024-04-01T00:00:00.000Z'' DAYS_TO_KEEP_CURRENT
     = (ARCHIVED, Some 91)"
  by (simp add: classify_def daysBetweenIso_def jsGreater_def isoTime_def DAYS_TO_KEEP_CURRENT_def)

lemma dirs [simp]:
  "currentDir node ''bouviers'' = ''images/puppies/bouviers/current''"
  "archiveDir node ''bouviers'' = ''images/puppies/bouviers/archive''"
  "summaryPath node ''bouviers'' = ''data/puppy-photos-bouviers.json''"
  "currentDir node ''lowchen'' = ''images/puppies/lowchen/current''"
  "archiveDir node ''lowchen'' = ''images/puppies/lowchen/archive''"
  "summaryPath node ''lowchen'' = ''data/puppy-photos-lowchen.json''"
  "MANIFEST_PATH node = ''data/puppy-photo-manifest.json''"
  by (simp_all add: currentDir_def archiveDir_def baseDir_def summaryPath_def dataDir_def
      MANIFEST_PATH_def)

lemmas run_defs = syncBreed_def syncFile_def touch_def store_def ensureBreed_def
  emptyManifest_def age_today age_old buddy1_name buddy2_name ensureMaterialized_def
  downloadFile_def existsSync_def writeFileSync_def relUrl_def Let_def

subsection \<open>The listing loop\<close>

text \<open>
  The loop of \<^verbatim>\<open>listFilesInFolder\<close> returns a list exactly when Drive answers with a finite
  chain of pages, and the list holds the images of these pages in their order.
\<close>

lemma listLoop_pages:
  "pagesFrom d folderId pageToken pages \<Longrightarrow>
     listLoop d folderId pageToken files = Some (Inr (files @ concat (map imagesOf pages)))"
proof (induction pages arbitrary: pageToken files)
  case Nil
  then show ?case by simp
next
  case (Cons res rest)
  show ?case
  proof (cases "rest = []")
    case True
    with Cons.prems show ?thesis
      by (subst listLoop.simps) simp
  next
    case False
    with Cons.prems have "pagesFrom d folderId (nextPageToken res) rest"
      and "filesList d folderId pageToken = Inr res" and "truthy (nextPageToken res)"
      by simp_all
    with Cons.IH [of "nextPageToken res" "files @ imagesOf res"] show ?thesis
      by (subst listLoop.simps) simp
  qed
qed

lemma listLoop_returns:
  assumes "listLoop d folderId pageToken files = Some r"
  shows "\<forall>out. r = Inr out \<longrightarrow>
           (\<exists>pages. pagesFrom d folderId pageToken pages
                   \<and> out = files @ concat (map imagesOf pages))"
proof (rule listLoop.raw_induct [where P = "\<lambda>d folderId pageToken files r.
         \<forall>out. r = Inr out \<longrightarrow>
           (\<exists>pages. pagesFrom d folderId pageToken pages
                   \<and> out = files @ concat (map imagesOf pages))", OF _ assms])
  fix loop d folderId pageToken files r
  assume IH: "\<And>d folderId pageToken files r. loop d folderId pageToken files = Some r \<Longrightarrow>
         \<forall>out. r = Inr out \<longrightarrow>
           (\<exists>pages. pagesFrom d folderId pageToken pages
                   \<and> out = files @ concat (map imagesOf pages))"
    and body: "(case filesList d folderId pageToken of
                  Inl e \<Rightarrow> Some (Inl e)
                | Inr res \<Rightarrow>
                    if \<not> truthy (nextPageToken res) then Some (Inr (files @ imagesOf res))
                    else loop d folderId (nextPageToken res) (files @ imagesOf res)) = Some r"
  show "\<forall>out. r = Inr out \<longrightarrow>
           (\<exists>pages. pagesFrom d folderId pageToken pages
                   \<and> out = files @ concat (map imagesOf pages))"
  proof (cases "filesList d folderId pageToken")
    case (Inl e)
    with body show ?thesis by auto
  next
    case (Inr res)
    show ?thesis
    proof (cases "truthy (nextPageToken res)")
      case False
      with Inr body have "r = Inr (files @ imagesOf res)" by simp
      moreover from Inr False have "pagesFrom d folderId pageToken [res]" by simp
      ultimately show ?thesis
        by (intro allI impI exI [of _ "[res]"]) simp
    next
      case True
      with Inr body have call: "loop d folderId (nextPageToken res) (files @ imagesOf res) = Some r"
        by simp
      show ?thesis
      proof (intro allI impI)
        fix out assume "r = Inr out"
        with IH [OF call] obtain pages
          where p: "pagesFrom d folderId (nextPageToken res) pages"
            and o: "out = (files @ imagesOf res) @ concat (map imagesOf pages)"
          by blast
        from p have "pages \<noteq> []" by auto
        with p Inr True have "pagesFrom d folderId pageToken (res # pages)" by simp
        with o show "\<exists>pages. pagesFrom d folderId pageToken pages
                       \<and> out = files @ concat (map imagesOf pages)"
          by (intro exI [of _ "res # pages"]) simp
      qed
    qed
  qed
qed

lemma listFilesInFolder_iff:
  "listFilesInFolder d folderId = Some (Inr out) \<longleftrightarrow>
     (\<exists>pages. pagesFrom d folderId None pages \<and> out = sortFiles (concat (map imagesOf pages)))"
proof
  assume "listFilesInFolder d folderId = Some (Inr out)"
  then obtain files where l: "listLoop d folderId None [] = Some (Inr files)"
    and o: "out = sortFiles files"
    by (auto simp: listFilesInFolder_def split: option.splits sum.splits)
  from listLoop_returns [OF l] o
  show "\<exists>pages. pagesFrom d folderId None pages \<and> out = sortFiles (concat (map imagesOf pages))"
    by auto
next
  assume "\<exists>pages. pagesFrom d folderId None pages \<and> out = sortFiles (concat (map imagesOf pages))"
  then show "listFilesInFolder d folderId = Some (Inr out)"
    by (auto simp: listFilesInFolder_def dest: listLoop_pages [where files = "[]"])
qed

lemma folderB_pages:
  "pagesFrom d ''folderB'' None [\<lparr>pageFiles = Some [buddy1, buddy2], nextPageToken = None\<rparr>]"
  if "filesList d = folders"
  using that by (simp add: folders_def truthy_def)

lemma folderB_listing:
  "listFilesInFolder d ''folderB'' = Some (Inr [buddy2, buddy1])" if "filesList d = folders"
  unfolding listFilesInFolder_iff
  apply (rule exI, rule conjI, rule folderB_pages [OF that])
  apply (simp add: imagesOf_def isImage_def truthy_def orElse_def buddy1_def buddy2_def
      sortFiles_def fileTime_def)
  done

subsection \<open>The loop of the orchestrator\<close>

lemma touch_result:
  assumes "touch m breedKey fileId runNowIso = Inr (v, m')"
  shows "getEntry m' breedKey fileId = Some v" and "v \<noteq> [] \<or> v = runNowIso"
    and "firstSeen m' breedKey \<noteq> None"
  using assms
  by (auto simp: touch_def store_def getEntry_def split: option.splits if_splits)

lemma touch_keeps:
  assumes "touch m breedKey fileId runNowIso = Inr (v, m')"
    and "getEntry m collectionKey assetId = Some u" and "u \<noteq> [] \<or> u = runNowIso"
  shows "getEntry m' collectionKey assetId = Some u"
  using assms
  by (auto simp: touch_def store_def getEntry_def split: option.splits if_splits)


text \<open>What one iteration does when it does not throw.\<close>

lemma syncFile_Inr:
  assumes "syncFile rt d breedKey runNowIso i f st = Inr st'"
  shows "\<exists>v. touch (stManifest st) breedKey (fid f) runNowIso = Inr (v, stManifest st')
            \<and> (if fst (classify rt v runNowIso DAYS_TO_KEEP_CURRENT) = ARCHIVED
               then stCurrent st' = stCurrent st \<and> stArchiveCount st' = stArchiveCount st + 1
               else stArchiveCount st' = stArchiveCount st
                    \<and> (\<exists>it. stCurrent st' = stCurrent st @ [it] \<and> filename it = stableName rt i f
                           \<and> driveName it = fname f \<and> itemFirstSeen it = v))"
  using assms
  by (auto simp: syncFile_def Let_def split: sum.splits prod.splits if_splits)

lemma syncLoop_Cons:
  assumes "syncLoop rt d breedKey runNowIso i (f # fs) st = Inr st'"
  obtains st1 where "syncFile rt d breedKey runNowIso i f st = Inr st1"
    and "syncLoop rt d breedKey runNowIso (Suc i) fs st1 = Inr st'"
  using assms by (auto split: sum.splits)

lemma syncLoop_count:
  "syncLoop rt d breedKey runNowIso i files st = Inr st' \<Longrightarrow>
     length (stCurrent st') + stArchiveCount st'
       = length (stCurrent st) + stArchiveCount st + length files"
proof (induction files arbitrary: i st)
  case Nil
  then show ?case by simp
next
  case (Cons f fs)
  from Cons.prems obtain st1 where one: "syncFile rt d breedKey runNowIso i f st = Inr st1"
    and rest: "syncLoop rt d breedKey runNowIso (Suc i) fs st1 = Inr st'"
    by (rule syncLoop_Cons)
  from syncFile_Inr [OF one] have "length (stCurrent st1) + stArchiveCount st1
                   = length (stCurrent st) + stArchiveCount st + 1"
    by (auto split: if_splits)
  with Cons.IH [OF rest] show ?case by simp
qed

lemma syncLoop_keeps:
  "syncLoop rt d breedKey runNowIso i files st = Inr st' \<Longrightarrow>
     getEntry (stManifest st) collectionKey assetId = Some u \<Longrightarrow> u \<noteq> [] \<or> u = runNowIso \<Longrightarrow>
     getEntry (stManifest st') collectionKey assetId = Some u"
proof (induction files arbitrary: i st)
  case Nil
  then show ?case by simp
next
  case (Cons f fs)
  from Cons.prems(1) obtain st1 where one: "syncFile rt d breedKey runNowIso i f st = Inr st1"
    and rest: "syncLoop rt d breedKey runNowIso (Suc i) fs st1 = Inr st'"
    by (rule syncLoop_Cons)
  from syncFile_Inr [OF one] obtain v
    where "touch (stManifest st) breedKey (fid f) runNowIso = Inr (v, stManifest st1)"
    by blast
  then have "getEntry (stManifest st1) collectionKey assetId = Some u"
    using Cons.prems(2,3) by (rule touch_keeps)
  with Cons.IH [OF rest] Cons.prems(3) show ?case by simp
qed


lemma syncLoop_current:
  "syncLoop rt d breedKey runNowIso i files st = Inr st' \<Longrightarrow>
     map filename (stCurrent st')
       = map filename (stCurrent st)
         @ map (\<lambda>(k, f). stableName rt k f)
             (filter (\<lambda>(k, f). \<not> archivedIn rt (stManifest st') breedKey runNowIso f)
                (enumerate i files))
     \<and> map driveName (stCurrent st')
       = map driveName (stCurrent st)
         @ map (\<lambda>(k, f). fname f)
             (filter (\<lambda>(k, f). \<not> archivedIn rt (stManifest st') breedKey runNowIso f)
                (enumerate i files))"
proof (induction files arbitrary: i st)
  case Nil
  then show ?case by simp
next
  case (Cons f fs)
  from Cons.prems(1) obtain st1 where one: "syncFile rt d breedKey runNowIso i f st = Inr st1"
    and rest: "syncLoop rt d breedKey runNowIso (Suc i) fs st1 = Inr st'"
    by (rule syncLoop_Cons)
  from syncFile_Inr [OF one] obtain v
    where t: "touch (stManifest st) breedKey (fid f) runNowIso = Inr (v, stManifest st1)"
      and step: "if fst (classify rt v runNowIso DAYS_TO_KEEP_CURRENT) = ARCHIVED
             then stCurrent st1 = stCurrent st \<and> stArchiveCount st1 = stArchiveCount st + 1
             else stArchiveCount st1 = stArchiveCount st
                  \<and> (\<exists>it. stCurrent st1 = stCurrent st @ [it] \<and> filename it = stableName rt i f
                         \<and> driveName it = fname f \<and> itemFirstSeen it = v)"
    by blast
  from touch_result [OF t] have "getEntry (stManifest st1) breedKey (fid f) = Some v"
    and "v \<noteq> [] \<or> v = runNowIso" by simp_all
  with rest have "getEntry (stManifest st') breedKey (fid f) = Some v"
    by (rule syncLoop_keeps)
  then have a: "archivedIn rt (stManifest st') breedKey runNowIso f
                  \<longleftrightarrow> fst (classify rt v runNowIso DAYS_TO_KEEP_CURRENT) = ARCHIVED"
    by (simp add: archivedIn_def)
  show ?case
  proof (cases "fst (classify rt v runNowIso DAYS_TO_KEEP_CURRENT) = ARCHIVED")
    case True
    with step a Cons.IH [OF rest] show ?thesis by simp
  next
    case False
    with step obtain it where "stCurrent st1 = stCurrent st @ [it]"
      and "filename it = stableName rt i f" and "driveName it = fname f"
      by auto
    with False a Cons.IH [OF rest] show ?thesis by simp
  qed
qed

lemma syncBreed_Inr:
  assumes "syncBreed rt d breedKey folderId m runNowIso w = Some (Inr (w', m', out))"
  obtains files st where "listFilesInFolder d folderId = Some (Inr files)"
    and "syncLoop rt d breedKey runNowIso 0 files
           \<lparr>stWorld = w, stManifest = ensureBreed m breedKey, stCurrent = [], stArchiveCount = 0\<rparr>
         = Inr st"
    and "m' = stManifest st" and "current out = stCurrent st"
    and "archiveCount out = stArchiveCount st"
    and "w' = writeFileSync (stWorld st) (summaryPath rt breedKey) (stringifySummary rt out)"
  using assms
  by (auto simp: syncBreed_def Let_def split: option.splits sum.splits)

lemma sortFiles_sorted: "sorted_wrt (\<lambda>a b. fileTime b \<le> fileTime a) (sortFiles files)"
  using sorted_sort_key [of "\<lambda>f. - fileTime f" files]
  by (simp add: sortFiles_def sorted_map)

lemma sortFiles_stable:
  "filter (\<lambda>f. fileTime f = t) (sortFiles files) = filter (\<lambda>f. fileTime f = t) files"
  using sort_key_stable [of "\<lambda>f. - fileTime f" "- t" files]
  by (simp add: sortFiles_def)

subsection \<open>Identity manifest: first-seen is written once\<close>



subsection \<open>Retention classifier: the threshold is strict\<close>



subsection \<open>Manifest file: a missing or corrupt file is an empty store\<close>



subsection \<open>Idempotent fetcher: an existing file is not fetched again\<close>

text \<open>
  Claim C4. When a file exists at the destination path, \<open>ensureMaterialized\<close> returns the
  world as it is: no request is sent and no byte changes. Only when no file exists is
  the content requested and written to the path. The strict variant,
  \<open>downloadDriveImageToRepo\<close>, asks Drive for the name of the file to find its path;
  when a non-empty file exists there it sends no content request and changes no file,
  and else it requests the content and writes what the stream delivers.
\<close>

theorem skip_if_exists:
  "(existsSync w destPath \<longrightarrow> ensureMaterialized d assetId destPath w = Inr w)
   \<and> (\<not> existsSync w destPath \<longrightarrow>
        (\<forall>content. filesGetMedia d assetId = Inr content \<longrightarrow>
           (\<exists>w'. ensureMaterialized d assetId destPath w = Inr w'
                \<and> requests w' = requests w @ [GetMedia assetId]
                \<and> fsys w' = (fsys w)(destPath \<mapsto> \<lparr>bytes = content, readable = True\<rparr>))))
   \<and> (\<forall>outPath outName ext w'.
        downloadDriveImageToRepo rt d assetId destDir w = Inr ((outPath, outName, ext), w') \<longrightarrow>
          (existsSync w outPath \<and> statSize w outPath > 0 \<longrightarrow>
             fsys w' = fsys w \<and> requests w' = requests w @ [GetMeta assetId])
        \<and> (\<not> (existsSync w outPath \<and> statSize w outPath > 0) \<longrightarrow>
             requests w' = requests w @ [GetMeta assetId, GetMedia assetId]
             \<and> (\<exists>content. filesGetStream d assetId = Inr (content, None)
                   \<and> map_option bytes (fsys w' outPath) = Some content)))"
  by (auto simp: ensureMaterialized_def downloadFile_def existsSync_def writeFileSync_def
        downloadDriveImageToRepo_def statSize_def Let_def
      split: sum.splits option.splits if_splits)

theorem skip_if_exists_witness:
  "existsSync kept ''images/puppies/bouviers/current/Buddy_4e89d81a2e.jpg''
   \<and> ensureMaterialized healthy ''id1'' ''images/puppies/bouviers/current/Buddy_4e89d81a2e.jpg'' kept
       = Inr kept
   \<and> \<not> existsSync blank ''images/puppies/bouviers/current/Buddy_4e89d81a2e.jpg''
   \<and> filesGetMedia healthy ''id1'' = Inr ''JPEG-1''
   \<and> (\<exists>w'. ensureMaterialized healthy ''id1''
               ''images/puppies/bouviers/current/Buddy_4e89d81a2e.jpg'' blank = Inr w'
          \<and> requests w' = [GetMedia ''id1'']
          \<and> fsys w' ''images/puppies/bouviers/current/Buddy_4e89d81a2e.jpg''
               = Some \<lparr>bytes = ''JPEG-1'', readable = True\<rparr>)
   \<and> existsSync kept ''assets/available-photos/id1.jpg''
   \<and> statSize kept ''assets/available-photos/id1.jpg'' > 0
   \<and> (\<exists>w'. downloadDriveImageToRepo node healthy ''id1'' ''assets/available-photos'' kept
               = Inr ((''assets/available-photos/id1.jpg'', ''id1.jpg'', ''jpg''), w')
          \<and> fsys w' = fsys kept \<and> requests w' = [GetMeta ''id1''])
   \<and> \<not> existsSync blank ''assets/available-photos/id1.jpg''
   \<and> (\<exists>w'. downloadDriveImageToRepo node healthy ''id1'' ''assets/available-photos'' blank
               = Inr ((''assets/available-photos/id1.jpg'', ''id1.jpg'', ''jpg''), w')
          \<and> requests w' = [GetMeta ''id1'', GetMedia ''id1'']
          \<and> map_option bytes (fsys w' ''assets/available-photos/id1.jpg'') = Some ''JPEG-1'')"
proof -
  let ?p = "''images/puppies/bouviers/current/Buddy_4e89d81a2e.jpg''"
  let ?q = "''assets/available-photos/id1.jpg''"
  let ?dir = "''assets/available-photos''"
  have a: "existsSync kept ?p" "existsSync kept ?q" "statSize kept ?q > 0"
    by (simp_all add: kept_def existsSync_def statSize_def)
  have b: "\<not> existsSync blank ?p" "\<not> existsSync blank ?q"
    by (simp_all add: blank_def existsSync_def)
  have c: "filesGetMedia healthy ''id1'' = Inr ''JPEG-1''" by simp
  have r: "requests blank = []" "requests kept = []" by (simp_all add: blank_def kept_def)
  note on_kept = skip_if_exists [of kept ?p healthy "''id1''" node ?dir]
  note on_blank = skip_if_exists [of blank ?p healthy "''id1''" node ?dir]
  from on_kept [THEN conjunct1] a(1)
  have 1: "ensureMaterialized healthy ''id1'' ?p kept = Inr kept" by simp
  from on_blank [THEN conjunct2, THEN conjunct1] b(1) c r
  have 2: "\<exists>w'. ensureMaterialized healthy ''id1'' ?p blank = Inr w'
             \<and> requests w' = [GetMedia ''id1'']
             \<and> fsys w' ?p = Some \<lparr>bytes = ''JPEG-1'', readable = True\<rparr>"
    by auto
  from on_kept [THEN conjunct2, THEN conjunct2, rule_format, OF strict_skip] a(2,3) r
  have "fsys (kept\<lparr>requests := [GetMeta ''id1'']\<rparr>) = fsys kept
        \<and> requests (kept\<lparr>requests := [GetMeta ''id1'']\<rparr>) = [GetMeta ''id1'']"
    by simp
  with strict_skip
  have 3: "\<exists>w'. downloadDriveImageToRepo node healthy ''id1'' ?dir kept
                   = Inr ((?q, ''id1.jpg'', ''jpg''), w')
             \<and> fsys w' = fsys kept \<and> requests w' = [GetMeta ''id1'']"
    by blast
  let ?w = "\<lparr>fsys = [?q \<mapsto> \<lparr>bytes = ''JPEG-1'', readable = True\<rparr>],
             requests = [GetMeta ''id1'', GetMedia ''id1'']\<rparr>"
  from on_blank [THEN conjunct2, THEN conjunct2, rule_format, OF strict_fetch] b(2) r
  have "requests ?w = [GetMeta ''id1'', GetMedia ''id1'']
        \<and> map_option bytes (fsys ?w ?q) = Some ''JPEG-1''"
    by simp
  with strict_fetch
  have 4: "\<exists>w'. downloadDriveImageToRepo node healthy ''id1'' ?dir blank
                   = Inr ((?q, ''id1.jpg'', ''jpg''), w')
             \<and> requests w' = [GetMeta ''id1'', GetMedia ''id1'']
             \<and> map_option bytes (fsys w' ?q) = Some ''JPEG-1''"
    by blast
  from a b c 1 2 3 4 show ?thesis by blast
qed

subsection \<open>Stable namer\<close>

lemma bounded_strings_finite: "finite {xs :: string. length xs \<le> n}"
  using finite_lists_length_le [of "UNIV :: char set" n] by simp

text \<open>Ten code units cannot tell all asset ids apart, whatever the digest function.\<close>

lemma fingerprint_not_injective:
  "\<exists>id1 id2. id1 \<noteq> id2 \<and> take 10 (sha1 rt id1) = take 10 (sha1 rt id2)"
proof (rule ccontr)
  assume "\<not> ?thesis"
  then have "inj (\<lambda>s. take 10 (sha1 rt s))" by (auto simp: inj_on_def)
  moreover have "range (\<lambda>s. take 10 (sha1 rt s)) \<subseteq> {xs. length xs \<le> 10}"
    by auto
  then have "finite (range (\<lambda>s. take 10 (sha1 rt s)))"
    using bounded_strings_finite [of 10] by (simp add: finite_subset)
  ultimately have "finite (UNIV :: string set)" by (rule finite_imageD [rotated])
  then show False using infinite_UNIV_listI by blast
qed




subsection \<open>Remote asset lister: the filter\<close>

lemma matchImageExt_iff:
  "matchImageExt s \<noteq> None \<longleftrightarrow>
     endsWithCI ''.jpg'' s \<or> endsWithCI ''.jpeg'' s \<or> endsWithCI ''.png'' s \<or> endsWithCI ''.webp'' s"
  by (auto simp: matchImageExt_def)

lemma isImage_iff:
  "isImage f \<longleftrightarrow>
     (\<exists>mt. mimeType f = Some mt \<and> mt \<noteq> []
        \<and> (prefix ''image/'' mt \<or> matchImageExt (orElse (fname f) []) \<noteq> None))"
  by (auto simp: isImage_def truthy_def orElse_def split: option.splits)

lemma set_sortFiles [simp]: "set (sortFiles files) = set files"
  by (simp add: sortFiles_def)

lemma set_imagesOf:
  "f \<in> set (imagesOf res) \<longleftrightarrow>
     (\<exists>entries. pageFiles res = Some entries \<and> f \<in> set entries \<and> isImage f)"
  by (cases "pageFiles res") (auto simp: imagesOf_def)

text \<open>
  Claim C8, as amended. The listing returns exactly the entries of the pages of the folder
  that have a non-empty MIME type and whose MIME type starts with \<^verbatim>\<open>image/\<close> or whose name
  ends in \<^verbatim>\<open>.jpg\<close>, \<^verbatim>\<open>.jpeg\<close>, \<^verbatim>\<open>.png\<close> or \<^verbatim>\<open>.webp\<close> in any case. An entry without MIME type
  is left out whatever its name; the extension counts only for an entry that has a MIME
  type of another kind.
\<close>

theorem lister_filter:
  assumes "listFilesInFolder d folderId = Some (Inr files)"
  shows "\<exists>pages. pagesFrom d folderId None pages
           \<and> (\<forall>f. f \<in> set files \<longleftrightarrow>
                 (\<exists>res\<in>set pages. \<exists>entries mt.
                     pageFiles res = Some entries \<and> f \<in> set entries
                   \<and> mimeType f = Some mt \<and> mt \<noteq> []
                   \<and> (prefix ''image/'' mt
                        \<or> endsWithCI ''.jpg'' (orElse (fname f) [])
                        \<or> endsWithCI ''.jpeg'' (orElse (fname f) [])
                        \<or> endsWithCI ''.png'' (orElse (fname f) [])
                        \<or> endsWithCI ''.webp'' (orElse (fname f) []))))"
proof -
  from assms obtain pages where p: "pagesFrom d folderId None pages"
    and f: "files = sortFiles (concat (map imagesOf pages))"
    by (auto simp: listFilesInFolder_iff)
  have "f \<in> set files \<longleftrightarrow>
          (\<exists>res\<in>set pages. \<exists>entries. pageFiles res = Some entries \<and> f \<in> set entries \<and> isImage f)" for f
    unfolding f by (simp add: set_imagesOf)
  with p show ?thesis
    unfolding isImage_iff matchImageExt_iff by (intro exI [of _ pages]) blast
qed

lemma folderA_pages:
  "pagesFrom healthy ''folderA'' None
     [\<lparr>pageFiles = Some [buddy1, noMime], nextPageToken = Some ''page2''\<rparr>,
      \<lparr>pageFiles = Some [generic, textFile], nextPageToken = None\<rparr>]"
  by (simp add: folders_def truthy_def)

lemma folderA_listing: "listFilesInFolder healthy ''folderA'' = Some (Inr [generic, buddy1])"
  unfolding listFilesInFolder_iff
  apply (rule exI, rule conjI, rule folderA_pages)
  apply (simp add: imagesOf_def isImage_def truthy_def orElse_def matchImageExt_def endsWithCI_def
      toLowerCase_def lowerChar_def upperChars_def lowerChars_def buddy1_def noMime_def generic_def textFile_def sortFiles_def fileTime_def)
  done

theorem lister_filter_witness:
  "listFilesInFolder healthy ''folderA'' = Some (Inr [generic, buddy1])
   \<and> (\<exists>pages. pagesFrom healthy ''folderA'' None pages
         \<and> (\<forall>f. f \<in> set [generic, buddy1] \<longleftrightarrow>
               (\<exists>res\<in>set pages. \<exists>entries mt.
                   pageFiles res = Some entries \<and> f \<in> set entries
                 \<and> mimeType f = Some mt \<and> mt \<noteq> []
                 \<and> (prefix ''image/'' mt
                      \<or> endsWithCI ''.jpg'' (orElse (fname f) [])
                      \<or> endsWithCI ''.jpeg'' (orElse (fname f) [])
                      \<or> endsWithCI ''.png'' (orElse (fname f) [])
                      \<or> endsWithCI ''.webp'' (orElse (fname f) [])))))"
  using lister_filter [OF folderA_listing] folderA_listing by blast

text \<open>
  The claim as stated fails on the entry \<^verbatim>\<open>pup.jpg\<close> of folder A: it has no MIME type, its
  name matches the expression, and the listing does not return it.
\<close>

theorem lister_skips_missing_mime_counterexample:
  "filesList healthy ''folderA'' None
     = Inr \<lparr>pageFiles = Some [buddy1, noMime], nextPageToken = Some ''page2''\<rparr>
   \<and> mimeType noMime = None
   \<and> fname noMime = Some ''pup.jpg''
   \<and> matchImageExt ''pup.jpg'' = Some ''.jpg''
   \<and> listFilesInFolder healthy ''folderA'' = Some (Inr [generic, buddy1])
   \<and> noMime \<notin> set [generic, buddy1]"
  by (simp add: folderA_listing folders_def noMime_def generic_def buddy1_def
      matchImageExt_def endsWithCI_def toLowerCase_def lowerChar_def upperChars_def lowerChars_def)

subsection \<open>Sync orchestrator: the summary\<close>

text \<open>The first run on folder B, with an empty manifest and no local file.\<close>

lemma healthy_run:
  "syncBreed node healthy ''bouviers'' ''folderB'' emptyManifest ''2024-04-01T00:00:00.000Z'' blank
   = Some (Inr (firstRunWorld, firstRunManifest, firstRunSummary))"
  by (simp add: run_defs folderB_listing blank_def firstRunWorld_def firstRunManifest_def
      firstRunSummary_def)

text \<open>
  Claim C9. Whenever \<open>syncBreed\<close> emits a summary, the files that the lister returned for
  the collection are split between the two buckets: the number of current items plus the
  archive count is the number of listed files, and this summary is what the summary file
  holds.
\<close>

theorem summary_partitions_listing:
  assumes "syncBreed rt d breedKey folderId m runNowIso w = Some (Inr (w', m', out))"
  shows "\<exists>files. listFilesInFolder d folderId = Some (Inr files)
           \<and> length (current out) + archiveCount out = length files
           \<and> map_option bytes (fsys w' (summaryPath rt breedKey)) = Some (stringifySummary rt out)"
proof -
  from assms obtain files st where l: "listFilesInFolder d folderId = Some (Inr files)"
    and loop: "syncLoop rt d breedKey runNowIso 0 files
           \<lparr>stWorld = w, stManifest = ensureBreed m breedKey, stCurrent = [], stArchiveCount = 0\<rparr>
         = Inr st"
    and o: "current out = stCurrent st" "archiveCount out = stArchiveCount st"
    and w': "w' = writeFileSync (stWorld st) (summaryPath rt breedKey) (stringifySummary rt out)"
    by (rule syncBreed_Inr)
  from syncLoop_count [OF loop] o l w' show ?thesis
    by (simp add: writeFileSync_def)
qed

theorem summary_partitions_listing_witness:
  "syncBreed node healthy ''bouviers'' ''folderB'' emptyManifest ''2024-04-01T00:00:00.000Z'' blank
   = Some (Inr (firstRunWorld, firstRunManifest, firstRunSummary))
   \<and> listFilesInFolder healthy ''folderB'' = Some (Inr [buddy2, buddy1])
   \<and> length (current firstRunSummary) + archiveCount firstRunSummary = length [buddy2, buddy1]"
  using summary_partitions_listing [OF healthy_run] healthy_run
  by (simp add: folderB_listing)

text \<open>
  Claim C7, as amended. The current items of the summary are in the order of the lister:
  by the modification time that Drive reports (the creation time when it is missing),
  newest first, and files with the same time in the order in which Drive listed them.
  The items are those of the listed files that the manifest does not put in the
  archive, in this order. First-seen time and asset id play no part in the order.
\<close>

theorem current_in_lister_order:
  assumes "syncBreed rt d breedKey folderId m runNowIso w = Some (Inr (w', m', out))"
  shows "\<exists>pages. pagesFrom d folderId None pages
           \<and> (let upstream = concat (map imagesOf pages);
                   files = sortFiles upstream;
                   kept = filter (\<lambda>(i, f). \<not> archivedIn rt m' breedKey runNowIso f)
                            (enumerate 0 files)
               in sorted_wrt (\<lambda>a b. fileTime b \<le> fileTime a) files
                  \<and> (\<forall>t. filter (\<lambda>f. fileTime f = t) files = filter (\<lambda>f. fileTime f = t) upstream)
                  \<and> map filename (current out) = map (\<lambda>(i, f). stableName rt i f) kept
                  \<and> map driveName (current out) = map (\<lambda>(i, f). fname f) kept)"
proof -
  from assms obtain files st where l: "listFilesInFolder d folderId = Some (Inr files)"
    and loop: "syncLoop rt d breedKey runNowIso 0 files
           \<lparr>stWorld = w, stManifest = ensureBreed m breedKey, stCurrent = [], stArchiveCount = 0\<rparr>
         = Inr st"
    and o: "m' = stManifest st" "current out = stCurrent st"
    by (rule syncBreed_Inr)
  from l obtain pages where p: "pagesFrom d folderId None pages"
    and f: "files = sortFiles (concat (map imagesOf pages))"
    by (auto simp: listFilesInFolder_iff)
  from syncLoop_current [OF loop] o f p show ?thesis
    by (intro exI [of _ pages]) (simp add: Let_def sortFiles_sorted sortFiles_stable)
qed

theorem current_in_lister_order_witness:
  "syncBreed node healthy ''bouviers'' ''folderB'' emptyManifest ''2024-04-01T00:00:00.000Z'' blank
   = Some (Inr (firstRunWorld, firstRunManifest, firstRunSummary))
   \<and> (\<exists>pages. pagesFrom healthy ''folderB'' None pages
         \<and> sorted_wrt (\<lambda>a b. fileTime b \<le> fileTime a) (sortFiles (concat (map imagesOf pages)))
         \<and> map filename (current firstRunSummary)
             = map (\<lambda>(i, f). stableName node i f)
                 (filter (\<lambda>(i, f). \<not> archivedIn node firstRunManifest ''bouviers''
                                       ''2024-04-01T00:00:00.000Z'' f)
                    (enumerate 0 (sortFiles (concat (map imagesOf pages))))))"
  using current_in_lister_order [OF healthy_run] healthy_run
  unfolding Let_def by blast

text \<open>
  The claim as stated fails on the first run on folder B: both files are first seen in
  this run, and the item of \<^verbatim>\<open>id2\<close>, the file modified last, is written before the item of
  \<^verbatim>\<open>id1\<close>.
\<close>

theorem current_order_counterexample:
  "syncBreed node healthy ''bouviers'' ''folderB'' emptyManifest ''2024-04-01T00:00:00.000Z'' blank
   = Some (Inr (firstRunWorld, firstRunManifest, firstRunSummary))
   \<and> map filename (current firstRunSummary) = [stableName node 0 buddy2, stableName node 1 buddy1]
   \<and> map itemFirstSeen (current firstRunSummary)
       = [''2024-04-01T00:00:00.000Z'', ''2024-04-01T00:00:00.000Z'']
   \<and> fid buddy2 = ''id2'' \<and> fid buddy1 = ''id1''
   \<and> modifiedTime buddy2 = Some 1711843200000 \<and> modifiedTime buddy1 = Some 1704067200000"
  by (simp add: healthy_run buddy1_name buddy2_name firstRunSummary_def)

subsection \<open>Sync orchestrator: a download that fails\<close>

text \<open>
  Claim C5 says that the failure of one download does not abort the sync of the
  collection, which goes on with the remaining assets and writes the summary. The loop
  of \<open>syncBreed\<close> awaits \<open>downloadFile\<close> outside any \<^verbatim>\<open>try\<close>, so the exception leaves
  \<open>syncBreed\<close> and \<open>main\<close>. On the Drive that rejects the download of \<^verbatim>\<open>id2\<close>, the first
  file of folder B, the run ends with this exception: \<^verbatim>\<open>id1\<close> is never requested, and
  neither a summary nor the manifest is written.
\<close>

theorem download_failure_aborts_run:
  "listFilesInFolder flaky ''folderB'' = Some (Inr [buddy2, buddy1])
   \<and> filesGetMedia flaky (fid buddy2) = Inl (ApiError ''timeout'')
   \<and> filesGetMedia flaky (fid buddy1) = Inr ''JPEG-1''
   \<and> syncBreed node flaky ''bouviers'' ''folderB'' emptyManifest ''2024-04-01T00:00:00.000Z'' blank
       = Some (Inl (ApiError ''timeout'', \<lparr>fsys = Map.empty, requests = [GetMedia ''id2'']\<rparr>))
   \<and> main node flaky (Some ''folderB'') (Some ''folderC'') ''2024-04-01T00:00:00.000Z'' blank
       = Some (Inl (ApiError ''timeout'', \<lparr>fsys = Map.empty, requests = [GetMedia ''id2'']\<rparr>))"
  by (simp add: run_defs folderB_listing blank_def main_def readManifest_def readManifestTry_def
      truthy_def orElse_def)

theorem download_failure_aborts_run_witness:
  "truthy (Some ''folderB'') \<and> truthy (Some ''folderC'')
   \<and> \<not> existsSync blank ''images/puppies/bouviers/current/Buddy_867d5f8110.jpg''
   \<and> (\<exists>e w. main node flaky (Some ''folderB'') (Some ''folderC'')
                 ''2024-04-01T00:00:00.000Z'' blank = Some (Inl (e, w))
             \<and> fsys w (summaryPath node ''bouviers'') = None
             \<and> fsys w (MANIFEST_PATH node) = None
             \<and> GetMedia ''id1'' \<notin> set (requests w))"
  using download_failure_aborts_run
  by (simp add: truthy_def existsSync_def blank_def)

subsection \<open>Identity manifest: the manifest only grows\<close>

lemma getEntry_ensureBreed [simp]:
  "getEntry (ensureBreed m breedKey) collectionKey assetId = getEntry m collectionKey assetId"
  by (auto simp: getEntry_def ensureBreed_def split: option.splits)










end
